theory Spec2Isabelle
  imports Complex_Main "HOL-Library.Word"
begin

section \<open>JavaScript values the component computes with\<close>

text \<open>
  A JavaScript string is a sequence of UTF-16 code units, and \<open>.length\<close> counts them.
  Strings that come from the user or from the network are lists of code units; the
  constant texts of the program (error messages, tile URLs, the \<open>|\<close>-joined page
  identifiers) are ordinary strings.
\<close>

type_synonym jsstring = "16 word list"

definition js :: "string \<Rightarrow> jsstring" where
  "js s = map (\<lambda>c. of_nat (of_char c)) s"

text \<open>
  \<open>currentArticleIndex\<close> is a JavaScript number. It starts at 0 and is only ever
  changed by adding 1, subtracting 1, adding a length and taking the remainder by
  a length, so its values are integers or, after a remainder by zero, \<open>NaN\<close>.
\<close>

datatype jsint = NaN | Idx int

fun js_add :: "jsint \<Rightarrow> int \<Rightarrow> jsint" where
  "js_add NaN k = NaN"
| "js_add (Idx i) k = Idx (i + k)"

text \<open>The operator \<open>%\<close>: the remainder has the sign of the dividend, and \<open>x % 0\<close> is \<open>NaN\<close>.\<close>

fun js_rem :: "jsint \<Rightarrow> int \<Rightarrow> jsint" where
  "js_rem NaN n = NaN"
| "js_rem (Idx i) n = (if n = 0 then NaN else Idx (sgn i * (\<bar>i\<bar> mod \<bar>n\<bar>)))"

text \<open>
  A field read off a parsed JSON object: the property may be missing
  (\<open>undefined\<close>), \<open>null\<close>, or a number.
\<close>

datatype jsval = Undefined | Null | Number real

datatype error =
    NetworkError string     \<comment> \<open>\<open>fetch\<close> rejected\<close>
  | SyntaxError             \<comment> \<open>\<open>response.json()\<close> rejected: the body is not JSON\<close>
  | TypeError               \<comment> \<open>a property read on \<open>undefined\<close>\<close>
  | URIError                \<comment> \<open>\<open>encodeURIComponent\<close> on a lone surrogate\<close>
  | Error string            \<comment> \<open>\<open>throw new Error(...)\<close>\<close>

text \<open>
  What \<open>await fetch(url)\<close> gives: the promise rejects with a message, or resolves to a
  response with a status code and a body, which \<open>response.json()\<close> parses or rejects
  (\<open>None\<close>). \<open>response.ok\<close> is true for the statuses 200 to 299.
\<close>

datatype 'a outcome = Rejected string | Response nat "'a option"

definition ok :: "nat \<Rightarrow> bool" where
  "ok status = (200 \<le> status \<and> status \<le> 299)"

fun json :: "'a outcome \<Rightarrow> error + 'a" where
  "json (Rejected msg) = Inl (NetworkError msg)"
| "json (Response status None) = Inl SyntaxError"
| "json (Response status (Some data)) = Inr data"

fun failed :: "'a outcome \<Rightarrow> bool" where
  "failed (Rejected msg) = True"
| "failed (Response status None) = True"
| "failed (Response status (Some data)) = False"

section \<open>The geocode proxy (route handler \<open>GET\<close>)\<close>

text \<open>
  \<open>searchParams.get("q")\<close> is the first value stored under the key, or \<open>null\<close>.
  The values of a parsed URL are decoded from UTF-8 and hold no lone surrogate, so
  \<open>encodeURIComponent(query)\<close> does not throw here.
  The handler answers with a status and a JSON body: an error envelope
  \<open>{error: ...}\<close> or the upstream data.
\<close>

datatype 'j body = ErrorBody string | JsonBody 'j

record 'j http_response =
  status :: nat
  body :: "'j body"

datatype upstream_request = NominatimSearch jsstring string
  \<comment> \<open>the query put into \<open>format=json&q=...\<close>, and the \<open>User-Agent\<close> header\<close>

definition GET ::
  "(jsstring \<Rightarrow> 'j outcome) \<Rightarrow> (jsstring \<times> jsstring) list \<Rightarrow>
     upstream_request list \<times> 'j http_response" where
  "GET upstream searchParams =
     (case map_of searchParams (js ''q'') of
        None \<Rightarrow> ([], \<lparr>status = 400, body = ErrorBody ''Query parameter is required''\<rparr>)
      | Some query \<Rightarrow>
          if query = [] then
            ([], \<lparr>status = 400, body = ErrorBody ''Query parameter is required''\<rparr>)
          else
            ([NominatimSearch query ''YourAppName/1.0''],
             (case upstream query of
                Rejected msg \<Rightarrow>
                  \<lparr>status = 500, body = ErrorBody ''Failed to fetch search results''\<rparr>
              | Response code parsed \<Rightarrow>
                  if \<not> ok code then
                    \<lparr>status = 500, body = ErrorBody ''Failed to fetch search results''\<rparr>
                  else
                    (case parsed of
                       None \<Rightarrow>
                         \<lparr>status = 500, body = ErrorBody ''Failed to fetch search results''\<rparr>
                     | Some data \<Rightarrow> \<lparr>status = 200, body = JsonBody data\<rparr>))))"

section \<open>The map component (\<open>src/components/Map.tsx\<close>)\<close>

subsection \<open>Data\<close>

datatype layer = Standard | Satellite | Explore

fun mapLayers :: "layer \<Rightarrow> string" where
  "mapLayers Standard = ''https://{s}.tile.openstreetmap.org/{z}/{x}/{y}.png''"
| "mapLayers Satellite =
     ''https://server.arcgisonline.com/ArcGIS/rest/services/World_Imagery/MapServer/tile/{z}/{y}/{x}''"
| "mapLayers Explore = ''https://{s}.tile.opentopomap.org/{z}/{x}/{y}.png''"

record thumb =
  source :: jsstring
  width :: nat
  height :: nat

record WikiArticle =
  pageid :: nat
  title :: jsstring
  extract' :: jsstring
  fullurl :: jsstring
  lat :: jsval
  lon :: jsval
  thumbnail :: "thumb option"

text \<open>
  The responses of the three services, in the shape the code reads them.
  A geocoder match carries its coordinate as two strings. A discovery item
  carries a page identifier. A hydrated page may carry a \<open>coordinates\<close> array
  (\<open>None\<close>: the property is missing), whose entries are objects with the
  properties \<open>lat\<close> and \<open>lon\<close>, and may carry a thumbnail.
\<close>

record search_result =
  result_lat :: jsstring
  result_lon :: jsstring
  display_name :: jsstring

record geosearch_item =
  item_pageid :: nat

record coordinate =
  coord_lat :: jsval
  coord_lon :: jsval

record page =
  page_pageid :: nat
  page_title :: jsstring
  page_extract :: jsstring
  page_fullurl :: jsstring
  page_coordinates :: "coordinate list option"
  page_thumbnail :: "thumb option"

text \<open>
  The network, as the component sees it: what each request resolves to.
  \<open>search_api q\<close> is \<open>GET /api/search?q=...\<close>; \<open>geosearch_api lat lon\<close> is the
  geosearch query around a coordinate (radius 10000, limit 50), whose parsed body
  holds \<open>data.query.geosearch\<close> (\<open>None\<close>: the body has no such list, as in an error
  reply); \<open>pages_api ids\<close> is the detail query for the joined identifiers, whose
  parsed body holds the values of \<open>articleData.query.pages\<close> in the order of
  \<open>Object.values\<close>.
\<close>

record net =
  search_api :: "jsstring \<Rightarrow> search_result list outcome"
  geosearch_api :: "real \<Rightarrow> real \<Rightarrow> geosearch_item list option outcome"
  pages_api :: "string \<Rightarrow> page list option outcome"

datatype request =
    SearchRequest jsstring
  | GeosearchRequest real real
  | PagesRequest string

text \<open>The Leaflet map held in \<open>mapRef\<close>: its view and the tile layers mounted on it.\<close>

record leaflet =
  center :: "real \<times> real"
  zoom :: nat
  tileLayers :: "string list"

record state =
  searchQuery :: jsstring
  currentLayer :: layer
  showControls :: bool
  wikiArticles :: "WikiArticle list"
  currentArticleIndex :: jsint
  userLocation :: "(real \<times> real) option"
  mapRef :: "leaflet option"
  tileLayerRef :: "string option"

definition initial_state :: state where
  "initial_state =
     \<lparr>searchQuery = [], currentLayer = Standard, showControls = False,
      wikiArticles = [], currentArticleIndex = Idx 0, userLocation = None,
      mapRef = None, tileLayerRef = None\<rparr>"

subsection \<open>Helpers of the language and of Leaflet\<close>

text \<open>
  \<open>encodeURIComponent\<close> throws a \<open>URIError\<close> exactly on the strings that are not
  well-formed UTF-16: those with a high surrogate (D800 to DBFF) that no low surrogate
  (DC00 to DFFF) follows, or a low surrogate that no high surrogate precedes.
\<close>

definition high_surrogate :: "16 word \<Rightarrow> bool" where
  "high_surrogate c = (55296 \<le> c \<and> c \<le> 56319)"

definition low_surrogate :: "16 word \<Rightarrow> bool" where
  "low_surrogate c = (56320 \<le> c \<and> c \<le> 57343)"

fun isWellFormed :: "jsstring \<Rightarrow> bool" where
  "isWellFormed [] = True"
| "isWellFormed [c] = (\<not> high_surrogate c \<and> \<not> low_surrogate c)"
| "isWellFormed (c # d # cs) =
     (if high_surrogate c then low_surrogate d \<and> isWellFormed cs
      else \<not> low_surrogate c \<and> isWellFormed (d # cs))"

text \<open>A page identifier printed in decimal, and \<open>Array.prototype.join\<close>.\<close>

fun toString :: "nat \<Rightarrow> string" where
  "toString n =
     (if n < 10 then [''0123456789'' ! n]
      else toString (n div 10) @ [''0123456789'' ! (n mod 10)])"

declare toString.simps [simp del]

fun join :: "string \<Rightarrow> string list \<Rightarrow> string" where
  "join sep [] = []"
| "join sep [x] = x"
| "join sep (x # y # ys) = x @ sep @ join sep (y # ys)"

text \<open>
  \<open>Number.parseFloat\<close> is a parameter of the model: it gives a number, or \<open>None\<close>
  for \<open>NaN\<close>. Leaflet builds a \<open>LatLng\<close> from the pair and throws on \<open>NaN\<close>;
  \<open>setView\<close> then moves the view.
\<close>

fun latLng :: "real option \<Rightarrow> real option \<Rightarrow> error + real \<times> real" where
  "latLng (Some a) (Some b) = Inr (a, b)"
| "latLng a b = Inl (Error ''Invalid LatLng object'')"

definition setView :: "real \<times> real \<Rightarrow> nat \<Rightarrow> leaflet \<Rightarrow> leaflet" where
  "setView c z m = m\<lparr>center := c, zoom := z\<rparr>"

text \<open>\<open>xs[i]\<close> for a number \<open>i\<close>: \<open>undefined\<close> out of range and at \<open>NaN\<close>.\<close>

fun element :: "'a list \<Rightarrow> jsint \<Rightarrow> 'a option" where
  "element xs NaN = None"
| "element xs (Idx i) = (if 0 \<le> i \<and> i < int (length xs) then Some (xs ! nat i) else None)"

text \<open>\<open>Array.prototype.map\<close> with a callback that may throw: the first throw ends it.\<close>

fun map_throw :: "('a \<Rightarrow> error + 'b) \<Rightarrow> 'a list \<Rightarrow> error + 'b list" where
  "map_throw f [] = Inr []"
| "map_throw f (x # xs) =
     (case f x of
        Inl e \<Rightarrow> Inl e
      | Inr y \<Rightarrow> (case map_throw f xs of Inl e \<Rightarrow> Inl e | Inr ys \<Rightarrow> Inr (y # ys)))"

subsection \<open>\<open>fetchWikiArticles\<close>\<close>

text \<open>
  The callback of \<open>Object.values(articleData.query.pages).map\<close>. \<open>lat\<close> and \<open>lon\<close>
  are \<open>null\<close> when \<open>page.coordinates\<close> is missing; otherwise they are read off
  \<open>page.coordinates[0]\<close>, and that read throws when the array is empty.
\<close>

definition article_of :: "page \<Rightarrow> error + WikiArticle" where
  "article_of p =
     (case page_coordinates p of
        None \<Rightarrow>
          Inr \<lparr>pageid = page_pageid p, title = page_title p, extract' = page_extract p,
               fullurl = page_fullurl p, lat = Null, lon = Null,
               thumbnail = page_thumbnail p\<rparr>
      | Some [] \<Rightarrow> Inl TypeError
      | Some (c # cs) \<Rightarrow>
          Inr \<lparr>pageid = page_pageid p, title = page_title p, extract' = page_extract p,
               fullurl = page_fullurl p, lat = coord_lat c, lon = coord_lon c,
               thumbnail = page_thumbnail p\<rparr>)"

text \<open>
  The body of the \<open>try\<close> block: the requests it issues, and either the exception
  that leaves it or the list it hands to \<open>setWikiArticles\<close>.
\<close>

definition fetchWikiArticles_try ::
  "net \<Rightarrow> real \<Rightarrow> real \<Rightarrow> request list \<times> (error + WikiArticle list)" where
  "fetchWikiArticles_try nw la lo =
     (case json (geosearch_api nw la lo) of
        Inl e \<Rightarrow> ([GeosearchRequest la lo], Inl e)
      | Inr None \<Rightarrow> ([GeosearchRequest la lo], Inl TypeError)
      | Inr (Some geosearch) \<Rightarrow>
          (let pageIds = join ''|'' (map (\<lambda>item. toString (item_pageid item)) geosearch) in
           if length pageIds = 0 then ([GeosearchRequest la lo], Inr [])
           else
             (case json (pages_api nw pageIds) of
                Inl e \<Rightarrow> ([GeosearchRequest la lo, PagesRequest pageIds], Inl e)
              | Inr None \<Rightarrow> ([GeosearchRequest la lo, PagesRequest pageIds], Inl TypeError)
              | Inr (Some pages) \<Rightarrow>
                  (case map_throw article_of pages of
                     Inl e \<Rightarrow> ([GeosearchRequest la lo, PagesRequest pageIds], Inl e)
                   | Inr articles \<Rightarrow>
                       ([GeosearchRequest la lo, PagesRequest pageIds],
                        Inr (filter (\<lambda>article. lat article \<noteq> Null \<and> lon article \<noteq> Null)
                               articles))))))"

definition fetchWikiArticles :: "net \<Rightarrow> real \<Rightarrow> real \<Rightarrow> state \<Rightarrow> request list \<times> state" where
  "fetchWikiArticles nw la lo s =
     (case fetchWikiArticles_try nw la lo of
        (reqs, Inl e) \<Rightarrow> (reqs, s\<lparr>wikiArticles := []\<rparr>)
      | (reqs, Inr articles) \<Rightarrow> (reqs, s\<lparr>wikiArticles := articles\<rparr>))"

subsection \<open>The \<open>moveend\<close> listener\<close>

text \<open>
  The listener that the mount effect registers on the map: it fetches the articles
  around the center the map then has. Leaflet fires \<open>moveend\<close> when a pan or zoom
  ends, and from within every \<open>setView\<close>; so each \<open>setView\<close> of a handler below
  starts this fetch too. (The \<open>setView\<close> of the mount effect itself comes before
  the listener is registered.)
\<close>

definition onMoveend :: "net \<Rightarrow> state \<Rightarrow> request list \<times> state" where
  "onMoveend nw s =
     (case mapRef s of
        None \<Rightarrow> ([], s)
      | Some m \<Rightarrow> fetchWikiArticles nw (fst (center m)) (snd (center m)) s)"

text \<open>
  The requests of two fetches of which the second is started before any answer to
  the first has arrived: both discovery requests leave first, the later requests
  follow.
\<close>

fun overlap :: "request list \<Rightarrow> request list \<Rightarrow> request list" where
  "overlap (a # as) (b # bs) = a # b # as @ bs"
| "overlap as [] = as"
| "overlap [] bs = bs"

subsection \<open>\<open>handleSearch\<close> and \<open>handleResultSelect\<close>\<close>

text \<open>
  \<open>handleResultSelect\<close> does nothing without a mounted map. \<open>setView\<close> throws before
  anything is changed when a coordinate is \<open>NaN\<close>. Otherwise the view moves, which
  starts the listener's fetch at the new center, and then \<open>fetchWikiArticles(lat, lon)\<close>
  starts a second fetch at the same coordinate. Both are run here to completion, the
  listener's first; each hands its list to \<open>setWikiArticles\<close>.
\<close>

definition handleResultSelect ::
  "(jsstring \<Rightarrow> real option) \<Rightarrow> net \<Rightarrow> search_result \<Rightarrow> state \<Rightarrow>
     error + request list \<times> state" where
  "handleResultSelect parseFloat nw result s =
     (case mapRef s of
        None \<Rightarrow> Inr ([], s)
      | Some m \<Rightarrow>
          (case latLng (parseFloat (result_lat result)) (parseFloat (result_lon result)) of
             Inl e \<Rightarrow> Inl e
           | Inr (la, lo) \<Rightarrow>
               (let listener = onMoveend nw (s\<lparr>mapRef := Some (setView (la, lo) 13 m)\<rparr>);
                    direct = fetchWikiArticles nw la lo (snd listener)
                in Inr (overlap (fst listener) (fst direct), snd direct))))"

text \<open>
  \<open>handleSearch\<close>: inside the \<open>try\<close>, \<open>encodeURIComponent(searchQuery)\<close> is evaluated
  before \<open>fetch\<close> is called, so a query that is not well-formed issues no request;
  every exception is caught and logged.
\<close>

definition handleSearch ::
  "(jsstring \<Rightarrow> real option) \<Rightarrow> net \<Rightarrow> state \<Rightarrow> request list \<times> state" where
  "handleSearch parseFloat nw s =
     (if length (searchQuery s) > 2 then
        if \<not> isWellFormed (searchQuery s) then ([], s)
        else
          (case search_api nw (searchQuery s) of
             Rejected msg \<Rightarrow> ([SearchRequest (searchQuery s)], s)
           | Response code parsed \<Rightarrow>
               if \<not> ok code then ([SearchRequest (searchQuery s)], s)
               else
                 (case parsed of
                    None \<Rightarrow> ([SearchRequest (searchQuery s)], s)
                  | Some [] \<Rightarrow> ([SearchRequest (searchQuery s)], s)
                  | Some (first # others) \<Rightarrow>
                      (case handleResultSelect parseFloat nw first s of
                         Inl e \<Rightarrow> ([SearchRequest (searchQuery s)], s)
                       | Inr (reqs, s') \<Rightarrow> (SearchRequest (searchQuery s) # reqs, s'))))
      else ([], s))"

subsection \<open>The article browser\<close>

datatype direction = Next | Prev

definition navigateArticle :: "direction \<Rightarrow> state \<Rightarrow> state" where
  "navigateArticle dir s =
     (case dir of
        Next \<Rightarrow>
          s\<lparr>currentArticleIndex :=
              js_rem (js_add (currentArticleIndex s) 1) (int (length (wikiArticles s)))\<rparr>
      | Prev \<Rightarrow>
          s\<lparr>currentArticleIndex :=
              js_rem (js_add (js_add (currentArticleIndex s) (- 1)) (int (length (wikiArticles s))))
                (int (length (wikiArticles s)))\<rparr>)"

text \<open>
  The card at the bottom left. With an empty list the placeholder is shown. Otherwise
  the card reads \<open>wikiArticles[currentArticleIndex].title\<close>, which throws when the
  index selects nothing. Both arrow buttons carry \<open>disabled={wikiArticles.length <= 1}\<close>.
\<close>

record card =
  cardTitle :: jsstring
  articleNumber :: jsint
  articleCount :: nat
  cardExtract :: jsstring
  prevDisabled :: bool
  nextDisabled :: bool
  readMore :: jsstring

datatype view = NoArticlesFound | ArticleCard card

definition render :: "state \<Rightarrow> error + view" where
  "render s =
     (if length (wikiArticles s) > 0 then
        (case element (wikiArticles s) (currentArticleIndex s) of
           None \<Rightarrow> Inl TypeError
         | Some article \<Rightarrow>
             Inr (ArticleCard
               \<lparr>cardTitle = title article,
                articleNumber = js_add (currentArticleIndex s) 1,
                articleCount = length (wikiArticles s),
                cardExtract = extract' article,
                prevDisabled = (length (wikiArticles s) \<le> 1),
                nextDisabled = (length (wikiArticles s) \<le> 1),
                readMore = fullurl article\<rparr>))
      else Inr NoArticlesFound)"

text \<open>
  A click on an arrow button: it reaches \<open>navigateArticle\<close> only when the card is on
  screen and the button is not disabled.
\<close>

definition clickNavigate :: "direction \<Rightarrow> state \<Rightarrow> state" where
  "clickNavigate dir s =
     (case render s of
        Inr (ArticleCard c) \<Rightarrow>
          (case dir of
             Prev \<Rightarrow> if prevDisabled c then s else navigateArticle Prev s
           | Next \<Rightarrow> if nextDisabled c then s else navigateArticle Next s)
      | Inr NoArticlesFound \<Rightarrow> s
      | Inl e \<Rightarrow> s)"

subsection \<open>Mounting the map, and the other handlers\<close>

text \<open>
  The first effect, run once in the browser: it creates the map when there is none yet,
  and registers the geolocation callback (\<open>onPosition\<close>) and the \<open>moveend\<close> listener
  (\<open>onMoveend\<close>), which run later.
\<close>

definition mount :: "bool \<Rightarrow> state \<Rightarrow> state" where
  "mount window s =
     (if window \<and> mapRef s = None then
        s\<lparr>tileLayerRef := Some (mapLayers Standard),
          mapRef := Some \<lparr>center = (51.505, - 0.09), zoom = 13,
                           tileLayers = [mapLayers Standard]\<rparr>\<rparr>
      else s)"

text \<open>
  The geolocation callback: it stores the position, moves the view there, which starts
  the listener's fetch, and starts a fetch of its own at the same coordinate.
\<close>

definition onPosition :: "net \<Rightarrow> real \<Rightarrow> real \<Rightarrow> state \<Rightarrow> request list \<times> state" where
  "onPosition nw latitude longitude s =
     (let listener =
            onMoveend nw
              (s\<lparr>userLocation := Some (latitude, longitude),
                 mapRef := map_option (setView (latitude, longitude) 13) (mapRef s)\<rparr>);
          direct = fetchWikiArticles nw latitude longitude (snd listener)
      in (overlap (fst listener) (fst direct), snd direct))"

definition changeMapLayer :: "layer \<Rightarrow> state \<Rightarrow> state" where
  "changeMapLayer l s =
     (case (mapRef s, tileLayerRef s) of
        (Some m, Some old) \<Rightarrow>
          s\<lparr>currentLayer := l,
            tileLayerRef := Some (mapLayers l),
            mapRef := Some (m\<lparr>tileLayers := remove1 old (tileLayers m) @ [mapLayers l]\<rparr>)\<rparr>
      | _ \<Rightarrow> s\<lparr>currentLayer := l\<rparr>)"

text \<open>"Center on Me": the view moves to the stored position, and the listener fetches.\<close>

definition centerOnUserLocation :: "net \<Rightarrow> state \<Rightarrow> request list \<times> state" where
  "centerOnUserLocation nw s =
     (case (mapRef s, userLocation s) of
        (Some m, Some loc) \<Rightarrow> onMoveend nw (s\<lparr>mapRef := Some (setView loc 13 m)\<rparr>)
      | _ \<Rightarrow> ([], s))"

section \<open>The earlier map component (the second \<open>Map\<close> source)\<close>

text \<open>
  This version of the component keeps the search results in its state, has no article
  list and no \<open>moveend\<close> listener, and drops one marker on the match it recenters on.
  Its \<open>catch\<close> also empties the search results. Its names carry a \<open>1\<close>.
\<close>

record state1 =
  searchQuery1 :: jsstring
  searchResults1 :: "search_result list"
  currentLayer1 :: layer
  showControls1 :: bool
  mapRef1 :: "leaflet option"
  tileLayerRef1 :: "string option"
  markersLayerRef1 :: "(real \<times> real) list option"

definition initial_state1 :: state1 where
  "initial_state1 =
     \<lparr>searchQuery1 = [], searchResults1 = [], currentLayer1 = Standard,
      showControls1 = False, mapRef1 = None, tileLayerRef1 = None,
      markersLayerRef1 = None\<rparr>"

definition mount1 :: "bool \<Rightarrow> state1 \<Rightarrow> state1" where
  "mount1 window s =
     (if window \<and> mapRef1 s = None then
        s\<lparr>tileLayerRef1 := Some (mapLayers Standard),
          markersLayerRef1 := Some [],
          mapRef1 := Some \<lparr>center = (51.505, - 0.09), zoom = 13,
                            tileLayers = [mapLayers Standard]\<rparr>\<rparr>
      else s)"

definition handleResultSelect1 ::
  "(jsstring \<Rightarrow> real option) \<Rightarrow> search_result \<Rightarrow> state1 \<Rightarrow> error + state1" where
  "handleResultSelect1 parseFloat result s =
     (case (mapRef1 s, markersLayerRef1 s) of
        (Some m, Some markers) \<Rightarrow>
          (case latLng (parseFloat (result_lat result)) (parseFloat (result_lon result)) of
             Inl e \<Rightarrow> Inl e
           | Inr (la, lo) \<Rightarrow>
               Inr (s\<lparr>mapRef1 := Some (setView (la, lo) 13 m),
                      markersLayerRef1 := Some [(la, lo)]\<rparr>))
      | _ \<Rightarrow> Inr s)"

definition handleSearch1 ::
  "(jsstring \<Rightarrow> real option) \<Rightarrow> (jsstring \<Rightarrow> search_result list outcome) \<Rightarrow> state1 \<Rightarrow>
     request list \<times> state1" where
  "handleSearch1 parseFloat search s =
     (if length (searchQuery1 s) > 2 then
        if \<not> isWellFormed (searchQuery1 s) then ([], s\<lparr>searchResults1 := []\<rparr>)
        else
          (case search (searchQuery1 s) of
             Rejected msg \<Rightarrow> ([SearchRequest (searchQuery1 s)], s\<lparr>searchResults1 := []\<rparr>)
           | Response code parsed \<Rightarrow>
               if \<not> ok code then ([SearchRequest (searchQuery1 s)], s\<lparr>searchResults1 := []\<rparr>)
               else
                 (case parsed of
                    None \<Rightarrow> ([SearchRequest (searchQuery1 s)], s\<lparr>searchResults1 := []\<rparr>)
                  | Some [] \<Rightarrow> ([SearchRequest (searchQuery1 s)], s\<lparr>searchResults1 := []\<rparr>)
                  | Some (first # others) \<Rightarrow>
                      (case handleResultSelect1 parseFloat first
                              (s\<lparr>searchResults1 := first # others\<rparr>) of
                         Inl e \<Rightarrow>
                           ([SearchRequest (searchQuery1 s)], s\<lparr>searchResults1 := []\<rparr>)
                       | Inr s' \<Rightarrow> ([SearchRequest (searchQuery1 s)], s'))))
      else ([], s))"

section \<open>Sample inputs\<close>

text \<open>
  Concrete articles, pages, states and networks on which the results below are run.
  \<open>sample_net h\<close> answers every search with the match for Paris, every discovery with
  the single identifier 7, and every detail request with \<open>h\<close>.
\<close>

definition sample_article :: "nat \<Rightarrow> WikiArticle" where
  "sample_article n =
     \<lparr>pageid = n, title = js ''Tower'', extract' = js ''A tower.'',
      fullurl = js ''https://en.wikipedia.org/wiki/Tower'', lat = Number 51.5,
      lon = Number (- 0.1), thumbnail = None\<rparr>"

definition sample_page :: "nat \<Rightarrow> coordinate list option \<Rightarrow> page" where
  "sample_page n cs =
     \<lparr>page_pageid = n, page_title = js ''Tower'', page_extract = js ''A tower.'',
      page_fullurl = js ''https://en.wikipedia.org/wiki/Tower'',
      page_coordinates = cs, page_thumbnail = None\<rparr>"

definition located :: "coordinate list option" where
  "located = Some [\<lparr>coord_lat = Number 51.5, coord_lon = Number (- 0.1)\<rparr>]"

definition lat_only :: "coordinate list option" where
  "lat_only = Some [\<lparr>coord_lat = Number 51.5, coord_lon = Undefined\<rparr>]"

definition three_articles :: state where
  "three_articles =
     initial_state\<lparr>wikiArticles := [sample_article 1, sample_article 2, sample_article 3]\<rparr>"

definition one_article :: state where
  "one_article = initial_state\<lparr>wikiArticles := [sample_article 1]\<rparr>"

definition browsing_third :: state where
  "browsing_third = three_articles\<lparr>currentArticleIndex := Idx 2\<rparr>"

definition sample_net :: "page list option outcome \<Rightarrow> net" where
  "sample_net hydration =
     \<lparr>search_api = (\<lambda>q. Response 200 (Some [\<lparr>result_lat = js ''48.8566'',
         result_lon = js ''2.3522'', display_name = js ''Paris, France''\<rparr>])),
      geosearch_api = (\<lambda>la lo. Response 200 (Some (Some [\<lparr>item_pageid = 7\<rparr>]))),
      pages_api = (\<lambda>ids. hydration)\<rparr>"

definition one_page_net :: net where
  "one_page_net = sample_net (Response 200 (Some (Some [sample_page 7 located])))"

definition lon_null :: "coordinate list option" where
  "lon_null = Some [\<lparr>coord_lat = Number 51.5, coord_lon = Null\<rparr>]"

definition three_page_net :: net where
  "three_page_net =
     sample_net (Response 200 (Some (Some
       [sample_page 7 located, sample_page 8 None, sample_page 9 lon_null])))"

definition lat_only_net :: net where
  "lat_only_net = sample_net (Response 200 (Some (Some [sample_page 7 lat_only])))"

definition hydration_down_net :: net where
  "hydration_down_net = sample_net (Rejected ''Failed to fetch'')"

definition offline_net :: net where
  "offline_net =
     \<lparr>search_api = (\<lambda>q. Rejected ''Failed to fetch''),
      geosearch_api = (\<lambda>la lo. Rejected ''Failed to fetch''),
      pages_api = (\<lambda>ids. Rejected ''Failed to fetch'')\<rparr>"

definition empty_area_net :: net where
  "empty_area_net =
     \<lparr>search_api = (\<lambda>q. Response 200 (Some [])),
      geosearch_api = (\<lambda>la lo. Response 200 (Some (Some []))),
      pages_api = (\<lambda>ids. Rejected ''never asked'')\<rparr>"

definition sample_parseFloat :: "jsstring \<Rightarrow> real option" where
  "sample_parseFloat x =
     (if x = js ''48.8566'' then Some 48.8566
      else if x = js ''2.3522'' then Some 2.3522 else None)"

definition paris_search :: state where
  "paris_search = (mount True initial_state)\<lparr>searchQuery := js ''Paris''\<rparr>"

section \<open>Facts about the helpers\<close>

lemma toString_nonempty: "toString n \<noteq> []"
  by (subst toString.simps) simp

lemma toString_7: "toString 7 = ''7''"
  by (simp add: toString.simps)

lemma join_nonempty: "xs \<noteq> [] \<Longrightarrow> \<forall>x\<in>set xs. x \<noteq> [] \<Longrightarrow> join sep xs \<noteq> []"
  by (induction sep xs rule: join.induct) auto

text \<open>The joined identifiers are the empty string exactly when discovery found nothing.\<close>

lemma pageIds_empty_iff:
  "(join ''|'' (map (\<lambda>item. toString (item_pageid item)) items) = []) = (items = [])"
  using join_nonempty [of "map (\<lambda>item. toString (item_pageid item)) items" "''|''"]
  by (auto simp: toString_nonempty)

lemma json_failed: "failed r \<Longrightarrow> \<exists>e. json r = Inl e"
  by (cases r rule: failed.cases) simp_all

lemma map_throw_Inr:
  "map_throw f xs = Inr ys \<Longrightarrow> list_all2 (\<lambda>x y. f x = Inr y) xs ys"
  by (induction xs arbitrary: ys) (auto split: sum.splits)

lemma map_throw_total:
  "\<forall>x\<in>set xs. \<exists>y. f x = Inr y \<Longrightarrow> \<exists>ys. map_throw f xs = Inr ys"
  by (induction xs) (auto split: sum.splits)

text \<open>Mapping a page throws exactly when its \<open>coordinates\<close> array is there and empty.\<close>

lemma article_of_Inr_iff: "(\<exists>a. article_of p = Inr a) = (page_coordinates p \<noteq> Some [])"
  by (auto simp: article_of_def split: option.splits list.splits)

lemma article_of_no_coordinates:
  "page_coordinates p = None \<Longrightarrow> article_of p = Inr a \<Longrightarrow> lat a = Null \<and> lon a = Null"
  by (auto simp: article_of_def)

lemma article_of_coordinates:
  "page_coordinates p = Some (c # cs) \<Longrightarrow> article_of p = Inr a \<Longrightarrow>
     lat a = coord_lat c \<and> lon a = coord_lon c"
  by (auto simp: article_of_def)

section \<open>Facts about \<open>fetchWikiArticles\<close>\<close>

text \<open>Whatever leaves the \<open>try\<close> block as an exception ends in \<open>setWikiArticles([])\<close>.\<close>

lemma catch_empties_list:
  "snd (fetchWikiArticles_try nw la lo) = Inl e \<Longrightarrow>
     wikiArticles (snd (fetchWikiArticles nw la lo s)) = []"
  by (cases "fetchWikiArticles_try nw la lo") (simp add: fetchWikiArticles_def)

text \<open>The fetch writes the article list and nothing else.\<close>

lemma fetch_changes_only_list:
  "\<exists>articles. snd (fetchWikiArticles nw la lo s) = s\<lparr>wikiArticles := articles\<rparr>"
  by (cases "fetchWikiArticles_try nw la lo"; cases "snd (fetchWikiArticles_try nw la lo)")
     (auto simp: fetchWikiArticles_def)

lemma fetch_keeps_map: "mapRef (snd (fetchWikiArticles nw la lo s)) = mapRef s"
  using fetch_changes_only_list [of nw la lo s] by auto

lemma fetch_keeps_cursor:
  "currentArticleIndex (snd (fetchWikiArticles nw la lo s)) = currentArticleIndex s"
  using fetch_changes_only_list [of nw la lo s] by auto

text \<open>What a fetch asks and what it writes do not depend on the state it starts from.\<close>

lemma fetch_requests:
  "fst (fetchWikiArticles nw la lo s) = fst (fetchWikiArticles_try nw la lo)"
  by (cases "fetchWikiArticles_try nw la lo"; cases "snd (fetchWikiArticles_try nw la lo)")
     (auto simp: fetchWikiArticles_def)

lemma fetch_list:
  "wikiArticles (snd (fetchWikiArticles nw la lo s)) =
     (case snd (fetchWikiArticles_try nw la lo) of Inl e \<Rightarrow> [] | Inr articles \<Rightarrow> articles)"
  by (cases "fetchWikiArticles_try nw la lo"; cases "snd (fetchWikiArticles_try nw la lo)")
     (auto simp: fetchWikiArticles_def)

lemma fetch_first_request:
  "\<exists>reqs. fst (fetchWikiArticles nw la lo s) = GeosearchRequest la lo # reqs"
  by (auto simp: fetchWikiArticles_def fetchWikiArticles_try_def Let_def
           split: sum.splits option.splits prod.splits)

lemma fetch_hydrated:
  assumes "geosearch_api nw la lo = Response c1 (Some (Some items))"
    and "items \<noteq> []"
    and "pages_api nw (join ''|'' (map (\<lambda>item. toString (item_pageid item)) items)) =
           Response c2 (Some (Some pages))"
    and "map_throw article_of pages = Inr articles"
  shows "fetchWikiArticles nw la lo s =
           ([GeosearchRequest la lo,
             PagesRequest (join ''|'' (map (\<lambda>item. toString (item_pageid item)) items))],
            s\<lparr>wikiArticles := filter (\<lambda>a. lat a \<noteq> Null \<and> lon a \<noteq> Null) articles\<rparr>)"
  using assms
  by (simp add: fetchWikiArticles_def fetchWikiArticles_try_def Let_def pageIds_empty_iff)

text \<open>The sample networks, run.\<close>

lemma fetch_sample_net:
  "fetchWikiArticles (sample_net (Response code (Some (Some [sample_page 7 cs])))) la lo s =
     ([GeosearchRequest la lo, PagesRequest ''7''],
      s\<lparr>wikiArticles :=
          (case article_of (sample_page 7 cs) of
             Inl e \<Rightarrow> []
           | Inr a \<Rightarrow> filter (\<lambda>a. lat a \<noteq> Null \<and> lon a \<noteq> Null) [a])\<rparr>)"
  by (simp add: fetchWikiArticles_def fetchWikiArticles_try_def sample_net_def toString_7
           split: sum.splits)

section \<open>Facts about the mounted map\<close>

lemma mount_mounts: "mapRef (mount True s) \<noteq> None"
  by (simp add: mount_def)

lemma onMoveend_mounted:
  "mapRef s = Some m \<Longrightarrow>
     onMoveend nw s = fetchWikiArticles nw (fst (center m)) (snd (center m)) s"
  by (simp add: onMoveend_def)

lemma onMoveend_keeps_map: "mapRef (snd (onMoveend nw s)) = mapRef s"
  by (simp add: onMoveend_def fetch_keeps_map split: option.splits)

text \<open>
  \<open>handleResultSelect\<close> on a mounted map, with a coordinate that parses: the view is
  moved, the first request is the discovery request at the coordinate, and the list
  is the one a fetch at the coordinate gives.
\<close>

lemma handleResultSelect_moves:
  assumes "mapRef s = Some m"
    and "parseFloat (result_lat result) = Some x"
    and "parseFloat (result_lon result) = Some y"
  shows "\<exists>reqs s'. handleResultSelect parseFloat nw result s =
             Inr (GeosearchRequest x y # reqs, s')
           \<and> mapRef s' = Some (m\<lparr>center := (x, y), zoom := 13\<rparr>)
           \<and> wikiArticles s' = wikiArticles (snd (fetchWikiArticles nw x y s))"
proof -
  let ?moved = "s\<lparr>mapRef := Some (setView (x, y) 13 m)\<rparr>"
  let ?listener = "fetchWikiArticles nw x y ?moved"
  let ?direct = "fetchWikiArticles nw x y (snd ?listener)"
  have listener: "onMoveend nw ?moved = ?listener"
    by (simp add: onMoveend_def setView_def)
  have run: "handleResultSelect parseFloat nw result s =
      Inr (overlap (fst ?listener) (fst ?direct), snd ?direct)"
    using assms by (simp add: handleResultSelect_def listener Let_def)
  obtain r1 where r1: "fst ?listener = GeosearchRequest x y # r1"
    using fetch_first_request by blast
  obtain r2 where r2: "fst ?direct = GeosearchRequest x y # r2"
    using fetch_first_request by blast
  have reqs: "overlap (fst ?listener) (fst ?direct) =
      GeosearchRequest x y # GeosearchRequest x y # r1 @ r2"
    by (simp add: r1 r2)
  have view: "mapRef (snd ?direct) = Some (m\<lparr>center := (x, y), zoom := 13\<rparr>)"
    by (simp add: fetch_keeps_map setView_def)
  have list: "wikiArticles (snd ?direct) = wikiArticles (snd (fetchWikiArticles nw x y s))"
    by (simp add: fetch_list)
  from run reqs view list show ?thesis by simp
qed

lemma handleResultSelect_keeps_map:
  assumes "mapRef s \<noteq> None" "handleResultSelect parseFloat nw result s = Inr (reqs, s')"
  shows "mapRef s' \<noteq> None"
  using assms
  by (auto simp: handleResultSelect_def Let_def fetch_keeps_map onMoveend_keeps_map
           split: sum.splits)

lemma handleSearch_keeps_map:
  assumes "mapRef s \<noteq> None"
  shows "mapRef (snd (handleSearch parseFloat nw s)) \<noteq> None"
  using assms handleResultSelect_keeps_map [OF assms]
  by (auto simp: handleSearch_def
           split: outcome.splits option.splits list.splits sum.splits)

lemma handlers_keep_map:
  assumes "mapRef s \<noteq> None"
  shows "mapRef (snd (onPosition nw la lo s)) \<noteq> None"
    and "mapRef (snd (onMoveend nw s)) \<noteq> None"
    and "mapRef (changeMapLayer l s) \<noteq> None"
    and "mapRef (snd (centerOnUserLocation nw s)) \<noteq> None"
    and "mapRef (navigateArticle dir s) \<noteq> None"
  using assms
  by (auto simp: onPosition_def Let_def changeMapLayer_def centerOnUserLocation_def
        navigateArticle_def fetch_keeps_map onMoveend_keeps_map
        split: option.splits direction.splits)

text \<open>Text typed in ASCII is well-formed.\<close>

lemma ascii_not_surrogate:
  "\<not> high_surrogate (of_nat (of_char c)) \<and> \<not> low_surrogate (of_nat (of_char c))"
proof -
  have lt: "(of_char c :: nat) < 256" by simp
  have "unat (of_nat (of_char c) :: 16 word) = (of_char c :: nat) mod 65536"
    by (simp add: unat_of_nat)
  also have "\<dots> \<le> of_char c" by simp
  finally have "unat (of_nat (of_char c) :: 16 word) < 256"
    using lt by linarith
  then show ?thesis
    by (simp add: high_surrogate_def low_surrogate_def word_le_nat_alt)
qed

lemma isWellFormed_js: "isWellFormed (js t)"
proof (induction t rule: induct_list012)
  case 1
  show ?case by (simp add: js_def)
next
  case (2 c)
  show ?case using ascii_not_surrogate [of c] by (simp add: js_def)
next
  case (3 c d cs)
  then show ?case using ascii_not_surrogate [of c] by (simp add: js_def)
qed

section \<open>Facts about the cursor\<close>

text \<open>
  With the cursor at a non-negative integer and a non-empty list, the two updates
  are the mathematical remainders.
\<close>

lemma navigate_next_in_range:
  assumes "currentArticleIndex s = Idx i" "0 \<le> i" "wikiArticles s \<noteq> []"
  shows "navigateArticle Next s =
           s\<lparr>currentArticleIndex := Idx ((i + 1) mod int (length (wikiArticles s)))\<rparr>"
  using assms by (simp add: navigateArticle_def)

lemma navigate_prev_in_range:
  assumes "currentArticleIndex s = Idx i" "0 \<le> i" "wikiArticles s \<noteq> []"
  shows "navigateArticle Prev s =
           s\<lparr>currentArticleIndex := Idx ((i - 1) mod int (length (wikiArticles s)))\<rparr>"
proof -
  let ?n = "int (length (wikiArticles s))"
  have n: "1 \<le> ?n" using assms(3) by (cases "wikiArticles s") auto
  then have nonneg: "0 \<le> i - 1 + ?n" using assms(2) by linarith
  have "sgn (i - 1 + ?n) * (\<bar>i - 1 + ?n\<bar> mod \<bar>?n\<bar>) = (i - 1 + ?n) mod ?n"
  proof (cases "i - 1 + ?n = 0")
    case True
    then show ?thesis by simp
  next
    case False
    with nonneg have "0 < i - 1 + ?n" by linarith
    then show ?thesis by simp
  qed
  also have "\<dots> = (i - 1) mod ?n" by simp
  finally show ?thesis using assms n by (simp add: navigateArticle_def)
qed

lemma next_funpow:
  assumes "currentArticleIndex s = Idx i" "0 \<le> i" "wikiArticles s \<noteq> []"
  shows "(navigateArticle Next ^^ k) s =
           (if k = 0 then s
            else s\<lparr>currentArticleIndex := Idx ((i + int k) mod int (length (wikiArticles s)))\<rparr>)"
proof (induction k)
  case 0
  show ?case by simp
next
  case (Suc k)
  let ?n = "int (length (wikiArticles s))"
  have n: "0 < ?n" using assms(3) by simp
  show ?case
  proof (cases "k = 0")
    case True
    then show ?thesis using navigate_next_in_range [OF assms] by simp
  next
    case False
    let ?t = "s\<lparr>currentArticleIndex := Idx ((i + int k) mod ?n)\<rparr>"
    have step: "navigateArticle Next ?t =
        ?t\<lparr>currentArticleIndex :=
             Idx (((i + int k) mod ?n + 1) mod int (length (wikiArticles ?t)))\<rparr>"
      by (rule navigate_next_in_range) (use assms(3) n in simp_all)
    have "((i + int k) mod ?n + 1) mod ?n = ((i + int k) + 1) mod ?n"
      by (rule mod_add_left_eq)
    moreover have "(i + int k) + 1 = i + int (Suc k)" by simp
    ultimately have "((i + int k) mod ?n + 1) mod ?n = (i + int (Suc k)) mod ?n"
      by (simp only:)
    with step Suc False show ?thesis by simp
  qed
qed

lemma prev_funpow:
  assumes "currentArticleIndex s = Idx i" "0 \<le> i" "wikiArticles s \<noteq> []"
  shows "(navigateArticle Prev ^^ k) s =
           (if k = 0 then s
            else s\<lparr>currentArticleIndex := Idx ((i - int k) mod int (length (wikiArticles s)))\<rparr>)"
proof (induction k)
  case 0
  show ?case by simp
next
  case (Suc k)
  let ?n = "int (length (wikiArticles s))"
  have n: "0 < ?n" using assms(3) by simp
  show ?case
  proof (cases "k = 0")
    case True
    then show ?thesis using navigate_prev_in_range [OF assms] by simp
  next
    case False
    let ?t = "s\<lparr>currentArticleIndex := Idx ((i - int k) mod ?n)\<rparr>"
    have step: "navigateArticle Prev ?t =
        ?t\<lparr>currentArticleIndex :=
             Idx (((i - int k) mod ?n - 1) mod int (length (wikiArticles ?t)))\<rparr>"
      by (rule navigate_prev_in_range) (use assms(3) n in simp_all)
    have "((i - int k) mod ?n - 1) mod ?n = ((i - int k) - 1) mod ?n"
      by (rule mod_diff_left_eq)
    moreover have "(i - int k) - 1 = i - int (Suc k)" by simp
    ultimately have "((i - int k) mod ?n - 1) mod ?n = (i - int (Suc k)) mod ?n"
      by (simp only:)
    with step Suc False show ?thesis by simp
  qed
qed

section \<open>The claims\<close>

subsection \<open>C1: the cursor after the list is replaced\<close>

text \<open>
  Claim C1: whenever a completed fetch replaces \<open>wikiArticles\<close>, the cursor
  \<open>currentArticleIndex\<close> is reset to 0 for a non-empty list and stands for "no
  selection" for an empty one, so that it never points past the end of the new list.
  The component does not do this: \<open>fetchWikiArticles\<close> writes the list only
  (\<open>fetch_keeps_cursor\<close>). While the third of three articles is shown, a fetch that
  brings one article leaves the cursor at 2, and the card then reads
  \<open>wikiArticles[2].title\<close> on a list of length 1 and throws.
\<close>

theorem fetch_leaves_cursor_stale:
  "render browsing_third \<noteq> Inl TypeError
   \<and> wikiArticles (snd (fetchWikiArticles one_page_net 51.505 (- 0.09) browsing_third)) =
       [sample_article 7]
   \<and> currentArticleIndex (snd (fetchWikiArticles one_page_net 51.505 (- 0.09) browsing_third)) =
       Idx 2
   \<and> render (snd (fetchWikiArticles one_page_net 51.505 (- 0.09) browsing_third)) =
       Inl TypeError"
  unfolding one_page_net_def fetch_sample_net
  by (simp add: article_of_def sample_page_def located_def sample_article_def
        browsing_third_def three_articles_def initial_state_def render_def)

subsection \<open>C2: which hydrated pages reach the list\<close>

text \<open>
  Claim C2, as amended: for every hydration response in which each page either has
  no \<open>coordinates\<close> or has a first \<open>coordinates\<close> entry whose \<open>lat\<close> and \<open>lon\<close> are
  each a number or \<open>null\<close>, the item of a page appears in the final list if and only
  if the page has both a \<open>lat\<close> and a \<open>lon\<close>, that is, if its first entry holds a
  number for each. Pages with neither and pages with only one of the two are excluded.
\<close>

theorem hydration_keeps_located:
  assumes "geosearch_api nw la lo = Response c1 (Some (Some items))"
    and "items \<noteq> []"
    and "pages_api nw (join ''|'' (map (\<lambda>item. toString (item_pageid item)) items)) =
           Response c2 (Some (Some pages))"
    and "\<forall>p\<in>set pages.
           (case page_coordinates p of
              None \<Rightarrow> True
            | Some [] \<Rightarrow> False
            | Some (c # cs) \<Rightarrow> coord_lat c \<noteq> Undefined \<and> coord_lon c \<noteq> Undefined)"
  shows "\<forall>p\<in>set pages. \<exists>a. article_of p = Inr a
           \<and> (a \<in> set (wikiArticles (snd (fetchWikiArticles nw la lo s)))) =
               (\<exists>c cs x y. page_coordinates p = Some (c # cs)
                  \<and> coord_lat c = Number x \<and> coord_lon c = Number y)"
proof
  fix p
  assume p: "p \<in> set pages"
  let ?final = "wikiArticles (snd (fetchWikiArticles nw la lo s))"
  from assms(4) have "\<forall>q\<in>set pages. page_coordinates q \<noteq> Some []"
    by (auto split: option.splits list.splits)
  then have "\<forall>q\<in>set pages. \<exists>a. article_of q = Inr a"
    by (simp add: article_of_Inr_iff)
  then obtain articles where arts: "map_throw article_of pages = Inr articles"
    using map_throw_total by blast
  then have rel: "list_all2 (\<lambda>q a. article_of q = Inr a) pages articles"
    by (rule map_throw_Inr)
  have final: "?final = filter (\<lambda>a. lat a \<noteq> Null \<and> lon a \<noteq> Null) articles"
    using fetch_hydrated [OF assms(1,2,3) arts] by simp
  from p obtain i where i: "i < length pages" "pages ! i = p"
    by (auto simp: in_set_conv_nth)
  with rel have a: "article_of p = Inr (articles ! i)" and mem: "articles ! i \<in> set articles"
    by (auto simp: list_all2_conv_all_nth)
  from assms(4) p have typed:
    "case page_coordinates p of
       None \<Rightarrow> True
     | Some [] \<Rightarrow> False
     | Some (c # cs) \<Rightarrow> coord_lat c \<noteq> Undefined \<and> coord_lon c \<noteq> Undefined"
    by blast
  have "(articles ! i \<in> set ?final) =
      (\<exists>c cs x y. page_coordinates p = Some (c # cs)
         \<and> coord_lat c = Number x \<and> coord_lon c = Number y)"
  proof (cases "page_coordinates p")
    case None
    with article_of_no_coordinates [OF None a] show ?thesis
      by (simp add: final)
  next
    case (Some entries)
    with typed obtain c cs where entries: "entries = c # cs"
      and defined: "coord_lat c \<noteq> Undefined" "coord_lon c \<noteq> Undefined"
      by (cases entries) auto
    from Some entries have pc: "page_coordinates p = Some (c # cs)" by simp
    from article_of_coordinates [OF pc a]
    have fields: "lat (articles ! i) = coord_lat c" "lon (articles ! i) = coord_lon c"
      by simp_all
    have "(coord_lat c \<noteq> Null \<and> coord_lon c \<noteq> Null) =
        (\<exists>x y. coord_lat c = Number x \<and> coord_lon c = Number y)"
      using defined by (cases "coord_lat c"; cases "coord_lon c") simp_all
    with fields mem pc show ?thesis
      by (simp add: final)
  qed
  with a show "\<exists>a. article_of p = Inr a
      \<and> (a \<in> set ?final) =
          (\<exists>c cs x y. page_coordinates p = Some (c # cs)
             \<and> coord_lat c = Number x \<and> coord_lon c = Number y)"
    by blast
qed

text \<open>
  On a response with a located page 7, a page 8 without coordinates and a page 9 whose
  entry has a \<open>lat\<close> and a \<open>null\<close> for \<open>lon\<close>, page 7 is listed and the other two are
  not.
\<close>

theorem hydration_keeps_located_witness:
  "sample_article 7 \<in> set (wikiArticles (snd (fetchWikiArticles three_page_net 0 0 initial_state)))
   \<and> (\<exists>a. article_of (sample_page 8 None) = Inr a
        \<and> a \<notin> set (wikiArticles (snd (fetchWikiArticles three_page_net 0 0 initial_state))))
   \<and> (\<exists>a. article_of (sample_page 9 lon_null) = Inr a
        \<and> a \<notin> set (wikiArticles (snd (fetchWikiArticles three_page_net 0 0 initial_state))))"
proof -
  let ?pages = "[sample_page 7 located, sample_page 8 None, sample_page 9 lon_null]"
  let ?final = "wikiArticles (snd (fetchWikiArticles three_page_net 0 0 initial_state))"
  have g: "geosearch_api three_page_net 0 0 = Response 200 (Some (Some [\<lparr>item_pageid = 7\<rparr>]))"
    by (simp add: three_page_net_def sample_net_def)
  have ne: "[\<lparr>item_pageid = 7\<rparr>] \<noteq> []" by simp
  have h: "pages_api three_page_net
             (join ''|'' (map (\<lambda>item. toString (item_pageid item)) [\<lparr>item_pageid = 7\<rparr>])) =
           Response 200 (Some (Some ?pages))"
    by (simp add: three_page_net_def sample_net_def)
  have typed: "\<forall>p\<in>set ?pages.
      (case page_coordinates p of
         None \<Rightarrow> True
       | Some [] \<Rightarrow> False
       | Some (c # cs) \<Rightarrow> coord_lat c \<noteq> Undefined \<and> coord_lon c \<noteq> Undefined)"
    by (simp add: sample_page_def located_def lon_null_def)
  note main = hydration_keeps_located [OF g ne h typed, of initial_state]
  have a7: "article_of (sample_page 7 located) = Inr (sample_article 7)"
    by (simp add: article_of_def sample_page_def located_def sample_article_def)
  have has7: "\<exists>c cs x y. page_coordinates (sample_page 7 located) = Some (c # cs)
      \<and> coord_lat c = Number x \<and> coord_lon c = Number y"
    by (rule exI [of _ "\<lparr>coord_lat = Number 51.5, coord_lon = Number (- 0.1)\<rparr>"],
        rule exI [of _ "[]"], rule exI [of _ "51.5"], rule exI [of _ "- 0.1"])
       (simp add: sample_page_def located_def)
  have no8: "\<not> (\<exists>c cs x y. page_coordinates (sample_page 8 None) = Some (c # cs)
      \<and> coord_lat c = Number x \<and> coord_lon c = Number y)"
    by (simp add: sample_page_def)
  have no9: "\<not> (\<exists>c cs x y. page_coordinates (sample_page 9 lon_null) = Some (c # cs)
      \<and> coord_lat c = Number x \<and> coord_lon c = Number y)"
    by (auto simp: sample_page_def lon_null_def)
  from main a7 has7 have in7: "sample_article 7 \<in> set ?final"
    by auto
  from main no8 have out8: "\<exists>a. article_of (sample_page 8 None) = Inr a \<and> a \<notin> set ?final"
    by auto
  from main no9 have out9: "\<exists>a. article_of (sample_page 9 lon_null) = Inr a \<and> a \<notin> set ?final"
    by auto
  from in7 out8 out9 show ?thesis by blast
qed

text \<open>
  Claim C2 as first stated, for every hydration response, fails on a response outside
  that shape. A page whose first \<open>coordinates\<close> entry has a \<open>lat\<close> and no \<open>lon\<close>
  property has only one of the two, and yet it is listed.
\<close>

theorem lat_only_page_is_listed:
  "page_coordinates (sample_page 7 lat_only) =
     Some [\<lparr>coord_lat = Number 51.5, coord_lon = Undefined\<rparr>]
   \<and> wikiArticles (snd (fetchWikiArticles lat_only_net 0 0 initial_state)) =
       [(sample_article 7)\<lparr>lon := Undefined\<rparr>]"
  unfolding lat_only_net_def fetch_sample_net
  by (simp add: article_of_def sample_page_def lat_only_def sample_article_def
        initial_state_def)

subsection \<open>C3: a failed fetch empties the list\<close>

text \<open>
  Claim C3: when the discovery request or the hydration request fails, by a
  network error or by a body that does not parse, the article list becomes the empty
  list whatever it held before, and the card shows that no articles were found.
\<close>

theorem failed_fetch_empties_list:
  assumes "failed (geosearch_api nw la lo)
         \<or> (geosearch_api nw la lo = Response code (Some (Some items))
            \<and> failed (pages_api nw
                 (join ''|'' (map (\<lambda>item. toString (item_pageid item)) items))))"
  shows "wikiArticles (snd (fetchWikiArticles nw la lo s)) = []
       \<and> render (snd (fetchWikiArticles nw la lo s)) = Inr NoArticlesFound"
proof -
  have "wikiArticles (snd (fetchWikiArticles nw la lo s)) = []"
    using assms
  proof
    assume "failed (geosearch_api nw la lo)"
    then obtain e where "json (geosearch_api nw la lo) = Inl e"
      using json_failed by blast
    then show ?thesis
      by (simp add: fetchWikiArticles_def fetchWikiArticles_try_def)
  next
    assume h: "geosearch_api nw la lo = Response code (Some (Some items))
            \<and> failed (pages_api nw
                 (join ''|'' (map (\<lambda>item. toString (item_pageid item)) items)))"
    then obtain e where
      "json (pages_api nw (join ''|'' (map (\<lambda>item. toString (item_pageid item)) items))) = Inl e"
      using json_failed by blast
    with h show ?thesis
      by (simp add: fetchWikiArticles_def fetchWikiArticles_try_def Let_def)
  qed
  then show ?thesis by (simp add: render_def)
qed

text \<open>
  Three articles are on screen; hydration is rejected in one run, discovery in the
  other. Both leave the empty list.
\<close>

theorem failed_fetch_empties_list_witness:
  "length (wikiArticles three_articles) = 3
   \<and> fst (fetchWikiArticles hydration_down_net 0 0 three_articles) =
       [GeosearchRequest 0 0, PagesRequest ''7'']
   \<and> wikiArticles (snd (fetchWikiArticles hydration_down_net 0 0 three_articles)) = []
   \<and> render (snd (fetchWikiArticles hydration_down_net 0 0 three_articles)) = Inr NoArticlesFound
   \<and> wikiArticles (snd (fetchWikiArticles offline_net 0 0 three_articles)) = []"
proof -
  have hyd: "failed (geosearch_api hydration_down_net 0 0)
      \<or> (geosearch_api hydration_down_net 0 0 = Response 200 (Some (Some [\<lparr>item_pageid = 7\<rparr>]))
         \<and> failed (pages_api hydration_down_net
              (join ''|'' (map (\<lambda>item. toString (item_pageid item)) [\<lparr>item_pageid = 7\<rparr>]))))"
    by (simp add: hydration_down_net_def sample_net_def)
  have dis: "failed (geosearch_api offline_net 0 0)
      \<or> (geosearch_api offline_net 0 0 = Response 200 (Some (Some []))
         \<and> failed (pages_api offline_net
              (join ''|'' (map (\<lambda>item. toString (item_pageid item)) []))))"
    by (simp add: offline_net_def)
  have reqs: "fst (fetchWikiArticles hydration_down_net 0 0 three_articles) =
      [GeosearchRequest 0 0, PagesRequest ''7'']"
    by (simp add: fetchWikiArticles_def fetchWikiArticles_try_def hydration_down_net_def
          sample_net_def toString_7)
  have len: "length (wikiArticles three_articles) = 3"
    by (simp add: three_articles_def)
  from failed_fetch_empties_list [OF hyd, of three_articles]
    failed_fetch_empties_list [OF dis, of three_articles] reqs len
  show ?thesis by simp
qed

subsection \<open>C4: the geocode proxy\<close>

text \<open>
  Claim C4: the handler answers 400 with an error body exactly when \<open>q\<close> is absent
  or empty, and then asks nothing upstream. With a non-empty \<open>q\<close> it forwards that
  query; an upstream reply with a success status and a JSON body comes back unchanged
  with status 200; an upstream network error or a status outside 200 to 299 gives
  status 500 with one fixed error body, the same whatever the failure was.
\<close>

theorem GET_contract:
  fixes upstream :: "jsstring \<Rightarrow> 'j outcome"
  shows "(status (snd (GET upstream ps)) = 400) =
           (map_of ps (js ''q'') = None \<or> map_of ps (js ''q'') = Some [])
       \<and> (map_of ps (js ''q'') = None \<or> map_of ps (js ''q'') = Some [] \<longrightarrow>
            GET upstream ps =
              ([], \<lparr>status = 400, body = ErrorBody ''Query parameter is required''\<rparr>))
       \<and> (\<forall>query. map_of ps (js ''q'') = Some query \<and> query \<noteq> [] \<longrightarrow>
            fst (GET upstream ps) = [NominatimSearch query ''YourAppName/1.0'']
          \<and> (\<forall>code data. upstream query = Response code (Some data) \<and> ok code \<longrightarrow>
                snd (GET upstream ps) = \<lparr>status = 200, body = JsonBody data\<rparr>)
          \<and> ((\<exists>msg. upstream query = Rejected msg)
               \<or> (\<exists>code parsed. upstream query = Response code parsed \<and> \<not> ok code) \<longrightarrow>
                snd (GET upstream ps) =
                  \<lparr>status = 500, body = ErrorBody ''Failed to fetch search results''\<rparr>))"
  by (auto simp: GET_def split: option.splits outcome.splits)

text \<open>
  The query \<open>Paris\<close> against an upstream that answers 200 with a body, one that
  answers 503, and one that cannot be reached; and a request without \<open>q\<close>.
\<close>

theorem GET_contract_witness:
  "GET (\<lambda>q. Response 200 (Some (js ''[]''))) [(js ''q'', js ''Paris'')] =
     ([NominatimSearch (js ''Paris'') ''YourAppName/1.0''],
      \<lparr>status = 200, body = JsonBody (js ''[]'')\<rparr>)
   \<and> snd (GET (\<lambda>q. Response 503 (Some (js ''busy''))) [(js ''q'', js ''Paris'')]) =
       \<lparr>status = 500, body = ErrorBody ''Failed to fetch search results''\<rparr>
   \<and> snd (GET (\<lambda>q. Rejected ''ECONNRESET'' :: jsstring outcome) [(js ''q'', js ''Paris'')]) =
       \<lparr>status = 500, body = ErrorBody ''Failed to fetch search results''\<rparr>
   \<and> status (snd (GET (\<lambda>q. Response 200 (Some (js ''[]''))) [(js ''q'', [])])) = 400
   \<and> GET (\<lambda>q. Response 200 (Some (js ''[]''))) [] =
       ([], \<lparr>status = 400, body = ErrorBody ''Query parameter is required''\<rparr>)"
proof -
  let ?ps = "[(js ''q'', js ''Paris'')]"
  have q: "map_of ?ps (js ''q'') = Some (js ''Paris'')" "js ''Paris'' \<noteq> []"
    by (simp_all add: js_def)
  have okay: "ok 200" "\<not> ok 503"
    by (simp_all add: ok_def)
  have empty: "map_of [(js ''q'', [])] (js ''q'') = Some []" "map_of [] (js ''q'') = None"
    by simp_all
  from GET_contract [of "\<lambda>q. Response 200 (Some (js ''[]''))" ?ps] q okay
  have a: "GET (\<lambda>q. Response 200 (Some (js ''[]''))) ?ps =
      ([NominatimSearch (js ''Paris'') ''YourAppName/1.0''],
       \<lparr>status = 200, body = JsonBody (js ''[]'')\<rparr>)"
    by (simp add: prod_eq_iff)
  from GET_contract [of "\<lambda>q. Response 503 (Some (js ''busy''))" ?ps] q okay
  have b: "snd (GET (\<lambda>q. Response 503 (Some (js ''busy''))) ?ps) =
      \<lparr>status = 500, body = ErrorBody ''Failed to fetch search results''\<rparr>"
    by simp
  from GET_contract [of "\<lambda>q. Rejected ''ECONNRESET'' :: jsstring outcome" ?ps] q
  have c: "snd (GET (\<lambda>q. Rejected ''ECONNRESET'' :: jsstring outcome) ?ps) =
      \<lparr>status = 500, body = ErrorBody ''Failed to fetch search results''\<rparr>"
    by simp
  from GET_contract [of "\<lambda>q. Response 200 (Some (js ''[]''))" "[(js ''q'', [])]"] empty
  have d: "status (snd (GET (\<lambda>q. Response 200 (Some (js ''[]''))) [(js ''q'', [])])) = 400"
    by simp
  from GET_contract [of "\<lambda>q. Response 200 (Some (js ''[]''))" "[]"] empty
  have e: "GET (\<lambda>q. Response 200 (Some (js ''[]''))) [] =
      ([], \<lparr>status = 400, body = ErrorBody ''Query parameter is required''\<rparr>)"
    by simp
  from a b c d e show ?thesis by simp
qed

subsection \<open>C5: a successful search recenters the map\<close>

text \<open>
  Claim C5: on a mounted map, a search (a well-formed query of more than 2 code units)
  that is answered with a success status and a non-empty array, whose first element's
  \<open>lat\<close> and \<open>lon\<close> strings parse to the numbers \<open>x\<close> and \<open>y\<close>, moves the view to the
  center \<open>(x, y)\<close> at zoom 13, issues the geosearch request for \<open>(x, y)\<close> right after
  the search request, and leaves in the article list what the fetch at \<open>(x, y)\<close> gives.
\<close>

theorem search_recenters_view:
  assumes "mapRef s = Some m"
    and "length (searchQuery s) > 2"
    and "isWellFormed (searchQuery s)"
    and "search_api nw (searchQuery s) = Response code (Some (first # others))"
    and "ok code"
    and "parseFloat (result_lat first) = Some x"
    and "parseFloat (result_lon first) = Some y"
  shows "mapRef (snd (handleSearch parseFloat nw s)) = Some (m\<lparr>center := (x, y), zoom := 13\<rparr>)
       \<and> (\<exists>reqs. fst (handleSearch parseFloat nw s) =
             SearchRequest (searchQuery s) # GeosearchRequest x y # reqs)
       \<and> wikiArticles (snd (handleSearch parseFloat nw s)) =
           wikiArticles (snd (fetchWikiArticles nw x y s))"
proof -
  from handleResultSelect_moves [OF assms(1,6,7), of nw]
  obtain reqs s' where sel: "handleResultSelect parseFloat nw first s =
        Inr (GeosearchRequest x y # reqs, s')"
    and view: "mapRef s' = Some (m\<lparr>center := (x, y), zoom := 13\<rparr>)"
    and list: "wikiArticles s' = wikiArticles (snd (fetchWikiArticles nw x y s))"
    by blast
  have run: "handleSearch parseFloat nw s =
      (SearchRequest (searchQuery s) # GeosearchRequest x y # reqs, s')"
    using assms(2,3,4,5) by (simp add: handleSearch_def sel)
  from view list show ?thesis by (simp add: run)
qed

text \<open>
  The query \<open>Paris\<close> on the freshly mounted map: the geocoder answers with
  \<open>lat = "48.8566"\<close> and \<open>lon = "2.3522"\<close>; the listener's fetch and the direct fetch
  each ask for the articles around that point.
\<close>

theorem search_recenters_view_witness:
  "searchQuery paris_search = js ''Paris''
   \<and> mapRef (snd (handleSearch sample_parseFloat one_page_net paris_search)) =
       Some \<lparr>center = (48.8566, 2.3522), zoom = 13, tileLayers = [mapLayers Standard]\<rparr>
   \<and> (\<exists>reqs. fst (handleSearch sample_parseFloat one_page_net paris_search) =
         SearchRequest (js ''Paris'') # GeosearchRequest 48.8566 2.3522 # reqs)
   \<and> wikiArticles (snd (handleSearch sample_parseFloat one_page_net paris_search)) =
       [sample_article 7]"
proof -
  let ?m = "\<lparr>center = (51.505, - 0.09), zoom = 13, tileLayers = [mapLayers Standard]\<rparr>"
  let ?r = "\<lparr>result_lat = js ''48.8566'', result_lon = js ''2.3522'',
             display_name = js ''Paris, France''\<rparr>"
  have q: "searchQuery paris_search = js ''Paris''"
    by (simp add: paris_search_def)
  have m: "mapRef paris_search = Some ?m"
    by (simp add: paris_search_def mount_def initial_state_def)
  have len: "length (searchQuery paris_search) > 2"
    by (simp add: q js_def)
  have wf: "isWellFormed (searchQuery paris_search)"
    by (simp add: q isWellFormed_js)
  have api: "search_api one_page_net (searchQuery paris_search) = Response 200 (Some (?r # []))"
    by (simp add: one_page_net_def sample_net_def)
  have okay: "ok 200"
    by (simp add: ok_def)
  have px: "sample_parseFloat (result_lat ?r) = Some 48.8566"
    by (simp add: sample_parseFloat_def)
  have py: "sample_parseFloat (result_lon ?r) = Some 2.3522"
    by (simp add: sample_parseFloat_def js_def)
  have fetched: "wikiArticles (snd (fetchWikiArticles one_page_net 48.8566 2.3522 paris_search)) =
      [sample_article 7]"
    unfolding one_page_net_def fetch_sample_net
    by (simp add: article_of_def sample_page_def located_def sample_article_def)
  from search_recenters_view [OF m len wf api okay px py] q fetched
  show ?thesis by simp
qed

subsection \<open>C6: discovery without identifiers\<close>

text \<open>
  Claim C6: when the discovery response holds no items, the article list becomes
  empty and the discovery request is the only request made: hydration is not issued.
\<close>

theorem no_identifiers_no_hydration:
  assumes "geosearch_api nw la lo = Response code (Some (Some []))"
  shows "fetchWikiArticles nw la lo s = ([GeosearchRequest la lo], s\<lparr>wikiArticles := []\<rparr>)"
  using assms by (simp add: fetchWikiArticles_def fetchWikiArticles_try_def)

theorem no_identifiers_no_hydration_witness:
  "geosearch_api empty_area_net 0 0 = Response 200 (Some (Some []))
   \<and> fetchWikiArticles empty_area_net 0 0 three_articles =
       ([GeosearchRequest 0 0], three_articles\<lparr>wikiArticles := []\<rparr>)"
proof -
  have g: "geosearch_api empty_area_net 0 0 = Response 200 (Some (Some []))"
    by (simp add: empty_area_net_def)
  from no_identifiers_no_hydration [OF g, of three_articles] g
  show ?thesis by simp
qed

subsection \<open>C7: short queries\<close>

text \<open>
  Claim C7: submitting a search whose query has at most 2 code units issues no request
  and leaves the state as it was, in both versions of the component.
\<close>

theorem short_query_is_ignored:
  "(length (searchQuery s) \<le> 2 \<longrightarrow> handleSearch parseFloat nw s = ([], s))
   \<and> (length (searchQuery1 t) \<le> 2 \<longrightarrow> handleSearch1 parseFloat search t = ([], t))"
  by (simp add: handleSearch_def handleSearch1_def)

theorem short_query_is_ignored_witness:
  "length (js ''Pa'') = 2
   \<and> handleSearch sample_parseFloat one_page_net (paris_search\<lparr>searchQuery := js ''Pa''\<rparr>) =
       ([], paris_search\<lparr>searchQuery := js ''Pa''\<rparr>)
   \<and> handleSearch1 sample_parseFloat (search_api one_page_net)
         (initial_state1\<lparr>searchQuery1 := js ''Pa''\<rparr>) =
       ([], initial_state1\<lparr>searchQuery1 := js ''Pa''\<rparr>)"
proof -
  have len: "length (js ''Pa'') = 2"
    by (simp add: js_def)
  from short_query_is_ignored [of "paris_search\<lparr>searchQuery := js ''Pa''\<rparr>" sample_parseFloat
      one_page_net "initial_state1\<lparr>searchQuery1 := js ''Pa''\<rparr>" "search_api one_page_net"] len
  show ?thesis by simp
qed

subsection \<open>C8: navigation on a list of at most one article\<close>

text \<open>
  Claim C8: for every list of length at most 1, the empty list included, the actions
  next and previous leave the cursor unchanged and are unavailable. A click on either
  arrow leaves the whole state as it was: with an empty list the card and its buttons
  are not shown, and any card that is shown has both buttons disabled, so the click
  does not reach \<open>navigateArticle\<close>. With exactly one article and the cursor at 0,
  \<open>navigateArticle\<close> itself leaves the cursor at 0 in both directions.
\<close>

theorem navigation_unavailable:
  assumes "length (wikiArticles s) \<le> 1"
  shows "clickNavigate dir s = s
       \<and> (wikiArticles s = [] \<longrightarrow> render s = Inr NoArticlesFound)
       \<and> (\<forall>c. render s = Inr (ArticleCard c) \<longrightarrow> prevDisabled c \<and> nextDisabled c)
       \<and> (length (wikiArticles s) = 1 \<and> currentArticleIndex s = Idx 0 \<longrightarrow>
            navigateArticle dir s = s)"
proof -
  have click: "clickNavigate dir s = s"
    using assms
    by (auto simp: clickNavigate_def render_def
             split: sum.splits view.splits direction.splits option.splits)
  have shown: "\<forall>c. render s = Inr (ArticleCard c) \<longrightarrow> prevDisabled c \<and> nextDisabled c"
    using assms by (auto simp: render_def split: if_splits option.splits)
  have one: "navigateArticle dir s = s"
    if "length (wikiArticles s) = 1" "currentArticleIndex s = Idx 0"
    using that by (cases dir) (simp_all add: navigateArticle_def)
  from click shown one show ?thesis
    by (simp add: render_def)
qed

text \<open>One article on screen, and the empty list the component starts with.\<close>

theorem navigation_unavailable_witness:
  "length (wikiArticles one_article) = 1
   \<and> clickNavigate Next one_article = one_article
   \<and> clickNavigate Prev one_article = one_article
   \<and> navigateArticle Next one_article = one_article
   \<and> navigateArticle Prev one_article = one_article
   \<and> (\<exists>c. render one_article = Inr (ArticleCard c) \<and> prevDisabled c \<and> nextDisabled c)
   \<and> clickNavigate Next initial_state = initial_state
   \<and> clickNavigate Prev initial_state = initial_state
   \<and> render initial_state = Inr NoArticlesFound"
proof -
  have one: "length (wikiArticles one_article) \<le> 1" "length (wikiArticles one_article) = 1"
    "currentArticleIndex one_article = Idx 0"
    by (simp_all add: one_article_def initial_state_def)
  have none: "length (wikiArticles initial_state) \<le> 1" "wikiArticles initial_state = []"
    by (simp_all add: initial_state_def)
  have card: "\<exists>c. render one_article = Inr (ArticleCard c)"
    by (simp add: render_def one_article_def initial_state_def)
  from navigation_unavailable [OF one(1), of Next] navigation_unavailable [OF one(1), of Prev]
    navigation_unavailable [OF none(1), of Next] navigation_unavailable [OF none(1), of Prev]
    one none card
  show ?thesis by auto
qed

subsection \<open>C9: a full round of navigation\<close>

text \<open>
  Claim C9: on a list of \<open>N > 0\<close> articles with the cursor at an index from 0 to
  \<open>N - 1\<close>, \<open>N\<close> steps forward bring the state, and so the cursor, back to where it
  started, and so do \<open>N\<close> steps backward.
\<close>

theorem navigate_cycle:
  assumes "length (wikiArticles s) = N"
    and "0 < N"
    and "currentArticleIndex s = Idx i"
    and "0 \<le> i"
    and "i < int N"
  shows "currentArticleIndex ((navigateArticle Next ^^ N) s) = Idx i
       \<and> currentArticleIndex ((navigateArticle Prev ^^ N) s) = Idx i
       \<and> (navigateArticle Next ^^ N) s = s
       \<and> (navigateArticle Prev ^^ N) s = s"
proof -
  have ne: "wikiArticles s \<noteq> []" using assms(1,2) by auto
  have "(i + int N) mod int N = i" "(i - int N) mod int N = i"
    using assms(4,5) by simp_all
  then show ?thesis
    using next_funpow [OF assms(3,4) ne, of N] prev_funpow [OF assms(3,4) ne, of N] assms(1,2,3)
    by simp
qed

text \<open>Three articles, starting at 0: forward through 1 and 2 back to 0, and backward via 2 and 1.\<close>

theorem navigate_cycle_witness:
  "length (wikiArticles three_articles) = 3
   \<and> currentArticleIndex three_articles = Idx 0
   \<and> currentArticleIndex (navigateArticle Next three_articles) = Idx 1
   \<and> currentArticleIndex ((navigateArticle Next ^^ 2) three_articles) = Idx 2
   \<and> currentArticleIndex ((navigateArticle Next ^^ 3) three_articles) = Idx 0
   \<and> currentArticleIndex (navigateArticle Prev three_articles) = Idx 2
   \<and> currentArticleIndex ((navigateArticle Prev ^^ 3) three_articles) = Idx 0"
proof -
  have len: "length (wikiArticles three_articles) = 3"
    by (simp add: three_articles_def)
  have start: "currentArticleIndex three_articles = Idx 0"
    by (simp add: three_articles_def initial_state_def)
  have n1: "currentArticleIndex (navigateArticle Next three_articles) = Idx 1"
    by (simp add: navigateArticle_def three_articles_def initial_state_def)
  have n2: "currentArticleIndex ((navigateArticle Next ^^ 2) three_articles) = Idx 2"
    by (simp add: numeral_2_eq_2 navigateArticle_def three_articles_def initial_state_def)
  have p1: "currentArticleIndex (navigateArticle Prev three_articles) = Idx 2"
    by (simp add: navigateArticle_def three_articles_def initial_state_def)
  from navigate_cycle [OF len _ start] len start n1 n2 p1
  show ?thesis by simp
qed

subsection \<open>C10: the view right after mounting\<close>

text \<open>
  Claim C10: once the component has mounted in the browser, and before any
  geolocation result, search or move, the map is centered at (51.505, -0.09) at zoom
  13 with the standard tile layer as its only layer and as the selected layer; this
  holds for both versions of the component.
\<close>

theorem initial_viewport:
  "mapRef (mount True initial_state) =
     Some \<lparr>center = (51.505, - 0.09), zoom = 13, tileLayers = [mapLayers Standard]\<rparr>
   \<and> tileLayerRef (mount True initial_state) = Some (mapLayers Standard)
   \<and> currentLayer (mount True initial_state) = Standard
   \<and> mapRef1 (mount1 True initial_state1) =
     Some \<lparr>center = (51.505, - 0.09), zoom = 13, tileLayers = [mapLayers Standard]\<rparr>
   \<and> tileLayerRef1 (mount1 True initial_state1) = Some (mapLayers Standard)
   \<and> currentLayer1 (mount1 True initial_state1) = Standard"
  by (simp add: mount_def mount1_def initial_state_def initial_state1_def)

end
